theory Spec2Isabelle
  imports Complex_Main "HOL-Library.Sublist" "HOL-Library.Multiset"
begin

section \<open>Strings\<close>

text \<open>
  JavaScript strings are modelled as \<^typ>\<open>string\<close>. The queries of interest are ASCII
  text; \<open>toLowerCase\<close> maps the letters \<open>A\<close> to \<open>Z\<close> to \<open>a\<close> to \<open>z\<close> and
  leaves every other character as it is.
\<close>

definition upperAlphabet :: string where
  "upperAlphabet = ''ABCDEFGHIJKLMNOPQRSTUVWXYZ''"

definition lowerAlphabet :: string where
  "lowerAlphabet = ''abcdefghijklmnopqrstuvwxyz''"

definition toLowerChar :: "char \<Rightarrow> char" where
  "toLowerChar c = (case map_of (zip upperAlphabet lowerAlphabet) c of None \<Rightarrow> c | Some d \<Rightarrow> d)"

definition toLowerCase :: "string \<Rightarrow> string" where
  "toLowerCase s = map toLowerChar s"

text \<open>\<open>s.includes(k)\<close>: \<open>k\<close> occurs in \<open>s\<close> as a contiguous substring.\<close>

fun includesStr :: "string \<Rightarrow> string \<Rightarrow> bool" where
  "includesStr [] k = (k = [])"
| "includesStr (c # cs) k = (prefix k (c # cs) \<or> includesStr cs k)"

section \<open>Query categorization\<close>

subsection \<open>\<open>QueryController.categorizeQuery\<close> (the categorization the research handler calls)\<close>

definition sustainabilityKeywords :: "string list" where
  "sustainabilityKeywords =
     [''sustainability'', ''sustainable'', ''green'', ''energy efficiency'',
      ''renewable'', ''leed'', ''carbon'', ''net zero'', ''esg'', ''environmental'']"

definition leasingKeywords :: "string list" where
  "leasingKeywords =
     [''lease'', ''leasing'', ''tenant'', ''landlord'', ''rent'', ''rental'',
      ''occupancy'', ''vacancy'', ''square footage'', ''office space'']"

definition marketKeywords :: "string list" where
  "marketKeywords =
     [''market'', ''trend'', ''forecast'', ''growth'', ''investment'', ''cap rate'',
      ''yield'', ''return'', ''appreciation'', ''property value'', ''price'']"

text \<open>
  The three \<open>forEach\<close> loops: a counter starting at 0, incremented for every keyword of the
  list that the lower-cased query includes.
\<close>

definition forEachMatch :: "string \<Rightarrow> string list \<Rightarrow> nat" where
  "forEachMatch queryLower keywords =
     fold (\<lambda>keyword n. if includesStr queryLower keyword then n + 1 else n) keywords 0"

definition categorizeQuery :: "string \<Rightarrow> string" where
  "categorizeQuery query =
     (let queryLower = toLowerCase query;
          sustainabilityMatches = forEachMatch queryLower sustainabilityKeywords;
          leasingMatches = forEachMatch queryLower leasingKeywords;
          marketMatches = forEachMatch queryLower marketKeywords
      in if sustainabilityMatches > leasingMatches \<and> sustainabilityMatches > marketMatches
           then ''sustainability''
         else if leasingMatches > sustainabilityMatches \<and> leasingMatches > marketMatches
           then ''leasing''
         else if marketMatches > 0 then ''market''
         else ''general'')"

subsection \<open>\<open>QueryCategorizer.categorize\<close> (the stand-alone categorizer)\<close>

definition qc_sustainabilityKeywords :: "string list" where
  "qc_sustainabilityKeywords =
     [''sustainability'', ''sustainable'', ''green'', ''eco'', ''environmental'', ''energy'',
      ''efficiency'', ''leed'', ''certification'', ''carbon'', ''footprint'', ''renewable'',
      ''solar'', ''climate'', ''emissions'', ''energy star'']"

definition qc_leasingKeywords :: "string list" where
  "qc_leasingKeywords =
     [''lease'', ''leasing'', ''rent'', ''rental'', ''tenant'', ''landlord'', ''occupancy'',
      ''vacancy'', ''square foot'', ''sq ft'', ''commercial space'', ''office space'',
      ''retail space'', ''industrial space'', ''warehouse'', ''contract'', ''agreement'']"

definition qc_marketTrendsKeywords :: "string list" where
  "qc_marketTrendsKeywords =
     [''market'', ''trend'', ''analysis'', ''forecast'', ''outlook'', ''prediction'',
      ''projection'', ''growth'', ''decline'', ''demand'', ''supply'', ''investment'',
      ''cap rate'', ''yield'', ''return'', ''value'', ''price'', ''pricing'', ''economic'']"

text \<open>\<open>keywords.reduce((count, keyword) => count + (query.includes(keyword) ? 1 : 0), 0)\<close>\<close>

definition countKeywordMatches :: "string \<Rightarrow> string list \<Rightarrow> nat" where
  "countKeywordMatches query keywords =
     foldl (\<lambda>count keyword. count + (if includesStr query keyword then 1 else 0)) 0 keywords"

definition categorize :: "string \<Rightarrow> string" where
  "categorize query =
     (let queryLower = toLowerCase query;
          sustainabilityScore = countKeywordMatches queryLower qc_sustainabilityKeywords;
          leasingScore = countKeywordMatches queryLower qc_leasingKeywords;
          marketScore = countKeywordMatches queryLower qc_marketTrendsKeywords
      in if sustainabilityScore > leasingScore \<and> sustainabilityScore > marketScore
           then ''sustainability''
         else if leasingScore > sustainabilityScore \<and> leasingScore > marketScore
           then ''leasing''
         else if marketScore > sustainabilityScore \<and> marketScore > leasingScore
           then ''market_trends''
         else ''general'')"

section \<open>Data model\<close>

text \<open>
  A research result is a JavaScript object; a property that an object does not define reads
  as \<open>undefined\<close>, which is \<open>None\<close> here. The citation written by the synthesis step
  has the five properties \<open>title\<close>, \<open>authors\<close>, \<open>source\<close>, \<open>link\<close>, \<open>date\<close>; a result
  has these and \<open>summary\<close> and \<open>type\<close>; the object the handler builds for an uploaded
  document has \<open>source\<close> and \<open>data\<close> only.
\<close>

record documentAnalysis =
  doc_summary :: string
  doc_topics :: "string list"
  doc_wordCount :: nat

text \<open>
  The \<open>documentContext\<close> of a request body: the browser client sends the summary text of
  the analysed document, the service's interface documents an analysis object.
\<close>

datatype docval = DocText string | DocObject documentAnalysis

record citation =
  title :: "string option"
  authors :: "string option"
  source :: "string option"
  link :: "string option"
  date :: "string option"

record result = citation +
  summary :: "string option"
  rtype :: "string option"
  data :: "docval option"

text \<open>
  An element of the \<open>researchResults\<close> array is either an array (what an adapter returned)
  or a single value; a value is an object or something falsy (\<open>null\<close>, \<open>undefined\<close>),
  written \<open>None\<close>.
\<close>

datatype item = Arr "result option list" | Elem "result option"

record event =
  step :: string
  ev_source :: "string option"
  timestamp :: string

datatype error = Error string | TypeError string

fun message :: "error \<Rightarrow> string" where
  "message (Error m) = m"
| "message (TypeError m) = m"

datatype adapter = Sustainability | Leasing | Market | Fallback

text \<open>
  The process-wide state: \<open>global.researchStatus\<close> and \<open>global.researchComplete\<close>, each
  an object used as a map from session ids (\<open>None\<close> while the global is still undefined,
  that is before the server's start-up code has assigned it). The field \<open>invoked\<close> is not
  part of the program: it lists, in order, the adapters whose \<open>getResearch\<close> has been
  entered, so that statements about which adapters run can be made. No function reads it.
\<close>

record gstate =
  researchStatus :: "(string \<rightharpoonup> event list) option"
  researchComplete :: "(string \<rightharpoonup> bool) option"
  invoked :: "adapter list"

text \<open>
  Everything a request reads from outside the process: the clock, the outcome of the
  academic-paper search, and the configuration and outcomes of the model providers.
  The clock is read once per request (every \<open>new Date()\<close> of a request sees the same
  reading).
\<close>

record messages =
  systemContent :: string
  userQuery :: string
  userResearch :: "result list"
  userDocument :: "docval option"

record env =
  isoNow :: string
  localeDate :: string
  systemPrompt :: string
  arXivOutcome :: "string \<Rightarrow> error + result list"
  AI_PROVIDER :: "string option"
  OPENAI_API_KEY :: "string option"
  ANTHROPIC_API_KEY :: "string option"
  openAIOutcome :: "messages \<Rightarrow> string \<Rightarrow> error + string"
  anthropicOutcome :: "messages \<Rightarrow> string \<Rightarrow> error + string"
  localResponse :: "messages \<Rightarrow> string"

section \<open>Computations that change the state and may throw\<close>

type_synonym 'a prog = "gstate \<Rightarrow> (error + 'a) \<times> gstate"

definition returnP :: "'a \<Rightarrow> 'a prog" where
  "returnP x st = (Inr x, st)"

definition throwP :: "error \<Rightarrow> 'a prog" where
  "throwP e st = (Inl e, st)"

definition liftP :: "error + 'a \<Rightarrow> 'a prog" where
  "liftP r st = (r, st)"

definition bindP :: "'a prog \<Rightarrow> ('a \<Rightarrow> 'b prog) \<Rightarrow> 'b prog" where
  "bindP m f st = (case m st of (Inl e, st') \<Rightarrow> (Inl e, st') | (Inr x, st') \<Rightarrow> f x st')"

definition thenP :: "unit prog \<Rightarrow> 'b prog \<Rightarrow> 'b prog" where
  "thenP m k = bindP m (\<lambda>_. k)"

text \<open>\<open>try { m } catch (e) { h e }\<close>: the state changes made before the throw stay.\<close>

definition catchP :: "'a prog \<Rightarrow> (error \<Rightarrow> 'a prog) \<Rightarrow> 'a prog" where
  "catchP m h st = (case m st of (Inl e, st') \<Rightarrow> h e st' | (Inr x, st') \<Rightarrow> (Inr x, st'))"

text \<open>JavaScript truthiness of an optional string: \<open>undefined\<close> and \<open>''\<close> are falsy.\<close>

fun truthy :: "string option \<Rightarrow> bool" where
  "truthy None = False"
| "truthy (Some s) = (s \<noteq> [])"

fun truthyDoc :: "docval option \<Rightarrow> bool" where
  "truthyDoc None = False"
| "truthyDoc (Some (DocText s)) = (s \<noteq> [])"
| "truthyDoc (Some (DocObject d)) = True"

definition mkEvent :: "env \<Rightarrow> string \<Rightarrow> string option \<Rightarrow> event" where
  "mkEvent e s src = \<lparr>step = s, ev_source = src, timestamp = isoNow e\<rparr>"

text \<open>
  \<open>global.researchStatus[sessionId].push(ev)\<close>, unguarded as in the handler: a
  \<open>TypeError\<close> when the global or the session's array is undefined.
\<close>

definition pushStatus :: "string \<Rightarrow> event \<Rightarrow> unit prog" where
  "pushStatus sid ev st =
     (case researchStatus st of
        None \<Rightarrow> (Inl (TypeError ''Cannot read properties of undefined''), st)
      | Some m \<Rightarrow>
          (case m sid of
             None \<Rightarrow> (Inl (TypeError ''Cannot read properties of undefined (reading push)''), st)
           | Some evs \<Rightarrow> (Inr (), st\<lparr>researchStatus := Some (m(sid \<mapsto> evs @ [ev]))\<rparr>)))"

text \<open>
  \<open>if (sessionId && global.researchStatus[sessionId]) { global.researchStatus[sessionId].push(ev) }\<close>,
  the guarded form every service uses. A falsy session id short-circuits the guard; an
  array, also an empty one, is truthy.
\<close>

definition logIfSession :: "string option \<Rightarrow> event \<Rightarrow> unit prog" where
  "logIfSession sessionId ev st =
     (if \<not> truthy sessionId then (Inr (), st)
      else case researchStatus st of
             None \<Rightarrow> (Inl (TypeError ''Cannot read properties of undefined''), st)
           | Some m \<Rightarrow>
               (case m (the sessionId) of
                  None \<Rightarrow> (Inr (), st)
                | Some evs \<Rightarrow>
                    (Inr (), st\<lparr>researchStatus := Some (m(the sessionId \<mapsto> evs @ [ev]))\<rparr>)))"

definition enter :: "adapter \<Rightarrow> unit prog" where
  "enter a st = (Inr (), st\<lparr>invoked := invoked st @ [a]\<rparr>)"

text \<open>Decimal rendering of a number inside a template string.\<close>

fun digitChar :: "nat \<Rightarrow> char" where
  "digitChar n = ''0123456789'' ! (n mod 10)"

fun showNat :: "nat \<Rightarrow> string" where
  "showNat n = (if n < 10 then [digitChar n] else showNat (n div 10) @ [digitChar n])"

declare showNat.simps [simp del]

section \<open>Source adapters\<close>

definition mkResult ::
  "string \<Rightarrow> string \<Rightarrow> string \<Rightarrow> string \<Rightarrow> string \<Rightarrow> string \<Rightarrow> string \<Rightarrow> result" where
  "mkResult t a d s l sm ty =
     \<lparr>title = Some t, authors = Some a, source = Some s, link = Some l, date = Some d,
      summary = Some sm, rtype = Some ty, data = None\<rparr>"

subsection \<open>\<open>SustainabilityService\<close>\<close>

text \<open>
  \<open>searchArXiv\<close>: the request, the XML parse and the mapping of the entries are one
  \<open>try\<close> block whose \<open>catch\<close> returns \<open>[]\<close>; \<^const>\<open>arXivOutcome\<close> is what that block does
  for the query (the mapped entries, or the error thrown somewhere inside it).
\<close>

definition searchArXiv :: "env \<Rightarrow> string \<Rightarrow> result list prog" where
  "searchArXiv e query = catchP (liftP (arXivOutcome e query)) (\<lambda>error. returnP [])"

definition searchLEED :: "env \<Rightarrow> string \<Rightarrow> result list prog" where
  "searchLEED e query =
     returnP [mkResult ''LEED Certification Data (Placeholder)'' ''U.S. Green Building Council''
        (localeDate e) ''LEED Database'' ''https://www.usgbc.org/projects''
        ''This is a placeholder for LEED certification data. In a production implementation, this would contain actual data from the LEED API.''
        ''certification_data'']"

text \<open>
  The body of \<open>SustainabilityService.getResearch\<close> with its two provider calls as
  parameters, so that the paths on which a provider call throws can be followed too.
  In the inner \<open>catch\<close> the array \<open>results\<close> is returned as it was before the inner
  \<open>try\<close>: the only statement after the \<open>push\<close> of the certification data is a guarded
  log, and when that throws the log of the \<open>catch\<close> block throws as well.
\<close>

definition getResearchWith ::
  "env \<Rightarrow> result list prog \<Rightarrow> result list prog \<Rightarrow> string option \<Rightarrow> result list prog" where
  "getResearchWith e arXivCall leedCall sessionId =
     thenP (logIfSession sessionId
              (mkEvent e ''Searching academic papers on sustainability'' (Some ''arXiv'')))
       (catchP
          (bindP arXivCall (\<lambda>arXivResults.
           bindP (if length arXivResults > 0
                  then thenP (logIfSession sessionId
                                (mkEvent e (''Found '' @ showNat (length arXivResults) @
                                            '' relevant academic papers on sustainability'')
                                   (Some ''arXiv'')))
                         (returnP arXivResults)
                  else returnP [])
             (\<lambda>results.
                if length results < 3
                then catchP
                       (thenP (logIfSession sessionId
                                 (mkEvent e ''Searching LEED certification databases''
                                    (Some ''USGBC LEED Database'')))
                          (bindP leedCall (\<lambda>leedResults.
                             if length leedResults > 0
                             then thenP (logIfSession sessionId
                                           (mkEvent e ''Retrieved LEED certification data''
                                              (Some ''USGBC LEED Database'')))
                                    (returnP (results @ leedResults))
                             else returnP results)))
                       (\<lambda>leedError.
                          thenP (logIfSession sessionId
                                   (mkEvent e (''LEED data search failed: '' @ message leedError)
                                      (Some ''USGBC LEED Database'')))
                            (returnP results))
                else returnP results)))
          (\<lambda>error.
             thenP (logIfSession sessionId
                      (mkEvent e (''Error in sustainability research: '' @ message error)
                         (Some ''Sustainability Service'')))
               (returnP [])))"

definition SustainabilityService_getResearch :: "env \<Rightarrow> string \<Rightarrow> string option \<Rightarrow> result list prog" where
  "SustainabilityService_getResearch e query sessionId =
     thenP (enter Sustainability)
       (getResearchWith e (searchArXiv e query) (searchLEED e query) sessionId)"

subsection \<open>\<open>LeasingService\<close>, \<open>MarketService\<close>, \<open>FallbackService\<close>\<close>

definition LeasingService_getResearch :: "env \<Rightarrow> string \<Rightarrow> string option \<Rightarrow> result list prog" where
  "LeasingService_getResearch e query sessionId =
     thenP (enter Leasing)
    (thenP (logIfSession sessionId
              (mkEvent e ''Searching for leasing market information'' (Some ''Leasing Service'')))
       (catchP
          (returnP [mkResult ''Commercial Lease Rate Data'' ''Leasing Research Team''
             (localeDate e) ''Leasing Database'' ''https://example.com/leasing''
             (''Sample leasing data for the query: '' @ query) ''market_report''])
          (\<lambda>error.
             thenP (logIfSession sessionId
                      (mkEvent e (''Error in leasing research: '' @ message error)
                         (Some ''Leasing Service'')))
               (returnP []))))"

definition MarketService_getResearch :: "env \<Rightarrow> string \<Rightarrow> string option \<Rightarrow> result list prog" where
  "MarketService_getResearch e query sessionId =
     thenP (enter Market)
    (thenP (logIfSession sessionId
              (mkEvent e ''Analyzing market trend information'' (Some ''Market Service'')))
       (catchP
          (returnP [mkResult ''Market Trends Analysis'' ''Market Research Team''
             (localeDate e) ''Market Database'' ''https://example.com/market''
             (''Sample market data for the query: '' @ query) ''market_report''])
          (\<lambda>error.
             thenP (logIfSession sessionId
                      (mkEvent e (''Error in market research: '' @ message error)
                         (Some ''Market Service'')))
               (returnP []))))"

definition FallbackService_getResearch :: "env \<Rightarrow> string \<Rightarrow> string option \<Rightarrow> result list prog" where
  "FallbackService_getResearch e query sessionId =
     thenP (enter Fallback)
    (thenP (logIfSession sessionId
              (mkEvent e ''Searching general knowledge sources'' (Some ''Fallback Service'')))
       (catchP
          (returnP [mkResult ''General Information'' ''Research Team''
             (localeDate e) ''General Database'' ''https://example.com/general''
             (''Sample fallback data for the query: '' @ query) ''web_content''])
          (\<lambda>error.
             thenP (logIfSession sessionId
                      (mkEvent e (''Error in fallback research: '' @ message error)
                         (Some ''Fallback Service'')))
               (returnP []))))"

fun getResearch :: "adapter \<Rightarrow> env \<Rightarrow> string \<Rightarrow> string option \<Rightarrow> result list prog" where
  "getResearch Sustainability = SustainabilityService_getResearch"
| "getResearch Leasing = LeasingService_getResearch"
| "getResearch Market = MarketService_getResearch"
| "getResearch Fallback = FallbackService_getResearch"

section \<open>Synthesis: \<open>AIService.processResearch\<close>\<close>

record synthesized =
  response :: string
  citations :: "citation list"

text \<open>\<open>researchResults.flat()\<close>: one level of arrays is spliced in.\<close>

fun flat :: "item list \<Rightarrow> result option list" where
  "flat [] = []"
| "flat (Arr xs # rest) = xs @ flat rest"
| "flat (Elem x # rest) = x # flat rest"

text \<open>\<open>.filter(Boolean)\<close>: the falsy entries are dropped; every object is truthy.\<close>

fun filterBoolean :: "result option list \<Rightarrow> result list" where
  "filterBoolean [] = []"
| "filterBoolean (None # rest) = filterBoolean rest"
| "filterBoolean (Some r # rest) = r # filterBoolean rest"

text \<open>
  \<open>prepareMessages\<close> renders its three arguments and the fixed system prompt into a
  system message and a user message; the model keeps what the rendering is a function of.
\<close>

definition prepareMessages :: "env \<Rightarrow> string \<Rightarrow> result list \<Rightarrow> docval option \<Rightarrow> messages" where
  "prepareMessages e query researchResults documentAnalysis =
     \<lparr>systemContent = systemPrompt e, userQuery = query, userResearch = researchResults,
      userDocument = documentAnalysis\<rparr>"

definition getApiKey :: "env \<Rightarrow> string \<Rightarrow> string option" where
  "getApiKey e provider =
     (let p = toLowerCase provider
      in if p = ''openai'' then OPENAI_API_KEY e
         else if p = ''anthropic'' then ANTHROPIC_API_KEY e
         else if p = ''local'' then Some ''mock-key''
         else None)"

definition providerLabel :: "string \<Rightarrow> string" where
  "providerLabel provider =
     (if provider = ''openai'' then ''OpenAI''
      else if provider = ''anthropic'' then ''Anthropic'' else provider)"

definition callProvider :: "env \<Rightarrow> string \<Rightarrow> messages \<Rightarrow> string \<Rightarrow> string prog" where
  "callProvider e provider msgs apiKey =
     (let p = toLowerCase provider
      in if p = ''openai'' then liftP (openAIOutcome e msgs apiKey)
         else if p = ''anthropic'' then liftP (anthropicOutcome e msgs apiKey)
         else if p = ''local'' then returnP (localResponse e msgs)
         else throwP (Error (''Unsupported AI provider: '' @ provider)))"

definition citationOf :: "result \<Rightarrow> citation" where
  "citationOf result =
     \<lparr>title = title result, authors = authors result, source = source result,
      link = link result, date = date result\<rparr>"

definition AIService_processResearch ::
  "env \<Rightarrow> string \<Rightarrow> item list \<Rightarrow> docval option \<Rightarrow> string option \<Rightarrow> synthesized prog" where
  "AIService_processResearch e query researchResults documentAnalysis sessionId =
     catchP
       (thenP (logIfSession sessionId
                 (mkEvent e ''Summarizing research findings'' (Some ''AI Service'')))
          (let flattenedResults = filterBoolean (flat researchResults)
           in thenP (logIfSession sessionId
                       (mkEvent e (''Found '' @ showNat (length flattenedResults) @
                                   '' relevant sources for research'')
                          (Some ''Research Aggregator'')))
                (let msgs = prepareMessages e query flattenedResults documentAnalysis;
                     provider = (if truthy (AI_PROVIDER e) then the (AI_PROVIDER e) else ''openai'');
                     apiKey = getApiKey e provider
                 in if \<not> truthy apiKey
                    then throwP (Error (''AI provider API key not configured for '' @ provider))
                    else thenP (logIfSession sessionId
                                  (mkEvent e (''Querying AI model ('' @ provider @ '')'')
                                     (Some (providerLabel provider))))
                           (bindP (callProvider e provider msgs (the apiKey)) (\<lambda>resp.
                              thenP (logIfSession sessionId
                                       (mkEvent e ''AI analysis complete, generating final response''
                                          (Some (providerLabel provider))))
                                (returnP \<lparr>response = resp,
                                          citations = map citationOf flattenedResults\<rparr>))))))
       (\<lambda>error.
          thenP (logIfSession sessionId
                   (mkEvent e (''Error in AI processing: '' @ message error) (Some ''AI Service'')))
            (throwP (Error (''Failed to process research with AI: '' @ message error))))"

section \<open>The research handler: \<open>QueryController.handleResearchQuery\<close>\<close>

record request =
  req_query :: "string option"
  req_sessionId :: "string option"
  req_documentContext :: "docval option"

datatype resBody =
    MessageBody string
  | ErrorBody string
  | MessageErrorBody string string
  | AiBody synthesized
  | StatusBody string "event list" bool

datatype httpResponse = Response (status: nat) (body: resBody)

text \<open>\<open>global.researchStatus[sessionId] = v\<close> and \<open>global.researchComplete[sessionId] = b\<close>.\<close>

definition setStatus :: "string \<Rightarrow> event list \<Rightarrow> unit prog" where
  "setStatus sid v st =
     (case researchStatus st of
        None \<Rightarrow> (Inl (TypeError ''Cannot set properties of undefined''), st)
      | Some m \<Rightarrow> (Inr (), st\<lparr>researchStatus := Some (m(sid \<mapsto> v))\<rparr>))"

definition setComplete :: "string \<Rightarrow> bool \<Rightarrow> unit prog" where
  "setComplete sid b st =
     (case researchComplete st of
        None \<Rightarrow> (Inl (TypeError ''Cannot set properties of undefined''), st)
      | Some m \<Rightarrow> (Inr (), st\<lparr>researchComplete := Some (m(sid \<mapsto> b))\<rparr>))"

text \<open>
  The part of the handler that fills \<open>researchResults\<close>: the three topical adapters under
  their category conditions, the fallback adapter always, and the object for the document
  context when there is one.
\<close>

definition gatherResults ::
  "env \<Rightarrow> string \<Rightarrow> string \<Rightarrow> string \<Rightarrow> docval option \<Rightarrow> item list prog" where
  "gatherResults e category query sid documentContext =
     bindP (if category = ''sustainability'' \<or> category = ''general''
            then thenP (pushStatus sid
                          (mkEvent e ''Gathering sustainability research data''
                             (Some ''Sustainability databases'')))
                   (bindP (SustainabilityService_getResearch e query (Some sid))
                      (\<lambda>sustainabilityData. returnP [Arr (map Some sustainabilityData)]))
            else returnP [])
    (\<lambda>r1.
     bindP (if category = ''leasing'' \<or> category = ''general''
            then thenP (pushStatus sid
                          (mkEvent e ''Analyzing leasing market information''
                             (Some ''Leasing databases'')))
                   (bindP (LeasingService_getResearch e query (Some sid))
                      (\<lambda>leasingData. returnP (r1 @ [Arr (map Some leasingData)])))
            else returnP r1)
    (\<lambda>r2.
     bindP (if category = ''market'' \<or> category = ''general''
            then thenP (pushStatus sid
                          (mkEvent e ''Retrieving market trend data''
                             (Some ''Market analytics providers'')))
                   (bindP (MarketService_getResearch e query (Some sid))
                      (\<lambda>marketData. returnP (r2 @ [Arr (map Some marketData)])))
            else returnP r2)
    (\<lambda>r3.
     thenP (pushStatus sid
              (mkEvent e ''Searching general knowledge sources''
                 (Some ''Wikipedia and general databases'')))
       (bindP (FallbackService_getResearch e query (Some sid))
          (\<lambda>fallbackData.
             let r4 = r3 @ [Arr (map Some fallbackData)]
             in if truthyDoc documentContext
                then thenP (pushStatus sid
                              (mkEvent e ''Analyzing uploaded document context'' None))
                       (returnP (r4 @
                          [Elem (Some \<lparr>title = None, authors = None,
                                       source = Some ''Document Analysis'', link = None,
                                       date = None, summary = None, rtype = None,
                                       data = documentContext\<rparr>)]))
                else returnP r4)))))"

text \<open>The body of the handler's \<open>try\<close> block once both checks have passed.\<close>

definition researchQuery ::
  "env \<Rightarrow> string \<Rightarrow> string \<Rightarrow> docval option \<Rightarrow> synthesized prog" where
  "researchQuery e query sid documentContext =
     thenP (setStatus sid [])
    (thenP (setComplete sid False)
    (thenP (pushStatus sid (mkEvent e ''Starting research query categorization'' None))
    (let category = categorizeQuery query
     in thenP (pushStatus sid (mkEvent e (''Query categorized as: '' @ category) None))
       (bindP (gatherResults e category query sid documentContext)
          (\<lambda>researchResults.
             thenP (pushStatus sid
                      (mkEvent e ''Processing research with AI analysis'' (Some ''OpenAI'')))
               (bindP (AIService_processResearch e query researchResults documentContext
                         (Some sid))
                  (\<lambda>aiResponse.
                     thenP (setComplete sid True) (returnP aiResponse))))))))"

definition handleResearchQuery :: "env \<Rightarrow> request \<Rightarrow> gstate \<Rightarrow> httpResponse \<times> gstate" where
  "handleResearchQuery e req st =
     (if \<not> truthy (req_query req)
        then (Response 400 (MessageBody ''Query is required''), st)
      else if \<not> truthy (req_sessionId req)
        then (Response 400 (ErrorBody ''Session ID is required''), st)
      else case researchQuery e (the (req_query req)) (the (req_sessionId req))
                  (req_documentContext req) st of
             (Inr aiResponse, st') \<Rightarrow> (Response 200 (AiBody aiResponse), st')
           | (Inl err, st') \<Rightarrow>
               (Response 500 (MessageErrorBody ''Error processing query'' (message err)), st'))"

text \<open>\<open>QueryController.getResearchStatus\<close>: what a status poll reports for a session.\<close>

definition getResearchStatus :: "string option \<Rightarrow> gstate \<Rightarrow> httpResponse" where
  "getResearchStatus sessionId st =
     (if \<not> truthy sessionId then Response 400 (MessageBody ''Session ID is required'')
      else case (researchStatus st, researchComplete st) of
             (Some ms, Some mc) \<Rightarrow>
               Response 200
                 (StatusBody (the sessionId)
                    (case ms (the sessionId) of None \<Rightarrow> [] | Some evs \<Rightarrow> evs)
                    (case mc (the sessionId) of None \<Rightarrow> False | Some b \<Rightarrow> b))
           | _ \<Rightarrow> Response 500 (MessageBody ''Error retrieving research status''))"

section \<open>News feeds: \<open>RSSFeedService.searchNews\<close>\<close>

















section \<open>Economic indicators: \<open>FREDService.searchEconomicData\<close>\<close>

record observation =
  obs_value :: string
  obs_date :: string

text \<open>
  Numbers are exact rationals; \<open>parseFloat\<close> is a parameter, \<open>None\<close> standing for
  \<open>NaN\<close>. \<open>seriesOutcome\<close> and \<open>observationsOutcome\<close> are the two requests for a series
  id: an error thrown, or the title of the first series (\<open>None\<close> when the response has
  none), respectively the observation array (\<open>None\<close> when the response has none).
\<close>

record fredEnv =
  FRED_API_KEY :: "string option"
  parseFloat :: "string \<Rightarrow> rat option"
  seriesOutcome :: "string \<Rightarrow> error + string option"
  observationsOutcome :: "string \<Rightarrow> error + observation list option"
  fred_localeDate :: string
  fred_toLocaleDateString :: "string \<Rightarrow> string"

definition creIndicators :: "(string \<times> string) list" where
  "creIndicators =
     [(''office'', ''OFFVACUSQ176N''), (''retail'', ''RETAILIRSA''),
      (''industrial'', ''INDPRO''), (''construction'', ''TTLCONS''),
      (''mortgage'', ''MORTGAGE30US''), (''commercial mortgage'', ''DRTSCIS''),
      (''property price'', ''BOGZ1FL075035503Q'')]"

definition relevantIndicators :: "string \<Rightarrow> (string \<times> string) list" where
  "relevantIndicators query =
     (let found = filter (\<lambda>(keyword, seriesId). includesStr (toLowerCase query) keyword)
                    creIndicators
      in if length found = 0
         then [(''office'', ''OFFVACUSQ176N''), (''construction'', ''TTLCONS'')]
         else found)"

definition trendLabel :: "rat \<Rightarrow> string" where
  "trendLabel percentChange =
     (if percentChange > 10 then ''significantly increased''
      else if percentChange > 2 then ''increased''
      else if percentChange < - 10 then ''significantly decreased''
      else if percentChange < - 2 then ''decreased''
      else ''stable'')"

definition percentChangeOf :: "rat \<Rightarrow> rat \<Rightarrow> rat" where
  "percentChangeOf latest previous = ((latest - previous) / previous) * 100"

definition calculateTrend :: "(string \<Rightarrow> rat option) \<Rightarrow> observation list \<Rightarrow> string" where
  "calculateTrend pf observations =
     (if length observations > 1
      then (case (pf (obs_value (observations ! 0)),
                  pf (obs_value (observations ! (length observations - 1)))) of
              (Some latest, Some previous) \<Rightarrow>
                (if previous \<noteq> 0 then trendLabel (percentChangeOf latest previous)
                 else ''stable'')
            | _ \<Rightarrow> ''stable'')
      else ''stable'')"

text \<open>
  One round of the loop over the indicators, after both requests have answered: the
  trend, the summary and the record. Reading \<open>observations[0]\<close> of an empty array throws.
\<close>

definition indicatorResult ::
  "fredEnv \<Rightarrow> string \<Rightarrow> string \<Rightarrow> string \<Rightarrow> observation list \<Rightarrow> error + result" where
  "indicatorResult fe keyword seriesId seriesTitle observations =
     (let trend = calculateTrend (parseFloat fe) observations
      in case observations of
           [] \<Rightarrow> Inl (TypeError ''Cannot read properties of undefined (reading value)'')
         | o0 # _ \<Rightarrow>
             Inr (mkResult seriesTitle ''Federal Reserve Economic Data (FRED)''
                    (fred_localeDate fe) ''FRED''
                    (''https://fred.stlouisfed.org/series/'' @ seriesId)
                    (seriesTitle @ '' has '' @ trend @ '' to '' @ obs_value o0 @ '' as of '' @
                     fred_toLocaleDateString fe (obs_date o0) @ ''. '' @
                     ''This indicator is relevant to commercial real estate '' @ keyword @
                     '' trends and provides insight into current market conditions.'')
                    ''economic_data''))"

fun indicatorLoop ::
  "fredEnv \<Rightarrow> (string \<times> string) list \<Rightarrow> result list \<Rightarrow> error + result list" where
  "indicatorLoop fe [] results = Inr results"
| "indicatorLoop fe ((keyword, seriesId) # rest) results =
     (case seriesOutcome fe seriesId of
        Inl err \<Rightarrow> Inl err
      | Inr None \<Rightarrow> indicatorLoop fe rest results
      | Inr (Some seriesTitle) \<Rightarrow>
          (case observationsOutcome fe seriesId of
             Inl err \<Rightarrow> Inl err
           | Inr None \<Rightarrow> indicatorLoop fe rest results
           | Inr (Some observations) \<Rightarrow>
               (case indicatorResult fe keyword seriesId seriesTitle observations of
                  Inl err \<Rightarrow> Inl err
                | Inr r \<Rightarrow> indicatorLoop fe rest (results @ [r]))))"

definition searchEconomicData :: "fredEnv \<Rightarrow> string \<Rightarrow> result list" where
  "searchEconomicData fe query =
     (let indicators = relevantIndicators query
      in if \<not> truthy (FRED_API_KEY fe)
         then [mkResult ''Commercial Real Estate Economic Indicators''
                 ''Federal Reserve Economic Data (FRED)'' (fred_localeDate fe) ''FRED''
                 ''https://fred.stlouisfed.org/''
                 (''Economic indicators relevant to '' @ [CHR 0x22] @ query @ [CHR 0x22] @
                  '' in commercial real estate show varied trends. Without a FRED API key, we can'' @
                  [CHR 0x27] @ ''t provide real-time data. Register for a free API key at https://fred.stlouisfed.org/docs/api/api_key.html to enable this functionality.'')
                 ''economic_data'']
         else case indicatorLoop fe indicators [] of
                Inl err \<Rightarrow> []
              | Inr results \<Rightarrow> results)"


section \<open>Notions used in the statements\<close>

text \<open>
  The effect of a service on the state, in closed form: entries appended to the log of one
  session, if that session has a log, and adapters appended to the list of those entered.
\<close>

definition appendEvents :: "string option \<Rightarrow> event list \<Rightarrow> gstate \<Rightarrow> gstate" where
  "appendEvents sessionId evs st =
     (if \<not> truthy sessionId then st
      else case researchStatus st of
             None \<Rightarrow> st
           | Some m \<Rightarrow>
               (case m (the sessionId) of
                  None \<Rightarrow> st
                | Some old \<Rightarrow> st\<lparr>researchStatus := Some (m(the sessionId \<mapsto> old @ evs))\<rparr>))"

definition effect :: "string option \<Rightarrow> event list \<Rightarrow> adapter list \<Rightarrow> gstate \<Rightarrow> gstate" where
  "effect sessionId evs as st = (appendEvents sessionId evs st)\<lparr>invoked := invoked st @ as\<rparr>"

definition statusExists :: "gstate \<Rightarrow> bool" where
  "statusExists st = (researchStatus st \<noteq> None)"

text \<open>The guard of a guarded log can be evaluated: there is no session id, or the map exists.\<close>

definition canLog :: "string option \<Rightarrow> gstate \<Rightarrow> bool" where
  "canLog sessionId st = (\<not> truthy sessionId \<or> researchStatus st \<noteq> None)"

definition sessionOpen :: "string \<Rightarrow> gstate \<Rightarrow> bool" where
  "sessionOpen sid st = (case researchStatus st of None \<Rightarrow> False | Some m \<Rightarrow> m sid \<noteq> None)"

text \<open>What a status poll would report as the completion flag of a session.\<close>

definition completeFlag :: "string \<Rightarrow> gstate \<Rightarrow> bool option" where
  "completeFlag sid st =
     (case getResearchStatus (Some sid) st of
        Response code (StatusBody s evs b) \<Rightarrow> Some b
      | _ \<Rightarrow> None)"

text \<open>A provider call has failed when it threw or came back with nothing.\<close>

fun failed :: "error + result list \<Rightarrow> bool" where
  "failed (Inl err) = True"
| "failed (Inr rs) = (rs = [])"

text \<open>The records of the four adapters.\<close>

definition leedRecord :: "env \<Rightarrow> result" where
  "leedRecord e =
     mkResult ''LEED Certification Data (Placeholder)'' ''U.S. Green Building Council''
        (localeDate e) ''LEED Database'' ''https://www.usgbc.org/projects''
        ''This is a placeholder for LEED certification data. In a production implementation, this would contain actual data from the LEED API.''
        ''certification_data''"

definition leasingRecord :: "env \<Rightarrow> string \<Rightarrow> result" where
  "leasingRecord e q =
     mkResult ''Commercial Lease Rate Data'' ''Leasing Research Team''
       (localeDate e) ''Leasing Database'' ''https://example.com/leasing''
       (''Sample leasing data for the query: '' @ q) ''market_report''"

definition marketRecord :: "env \<Rightarrow> string \<Rightarrow> result" where
  "marketRecord e q =
     mkResult ''Market Trends Analysis'' ''Market Research Team''
       (localeDate e) ''Market Database'' ''https://example.com/market''
       (''Sample market data for the query: '' @ q) ''market_report''"

definition fallbackRecord :: "env \<Rightarrow> string \<Rightarrow> result" where
  "fallbackRecord e q =
     mkResult ''General Information'' ''Research Team''
       (localeDate e) ''General Database'' ''https://example.com/general''
       (''Sample fallback data for the query: '' @ q) ''web_content''"

definition cannedRecord :: "adapter \<Rightarrow> env \<Rightarrow> string \<Rightarrow> result" where
  "cannedRecord a e q =
     (case a of Sustainability \<Rightarrow> leedRecord e | Leasing \<Rightarrow> leasingRecord e q
      | Market \<Rightarrow> marketRecord e q | Fallback \<Rightarrow> fallbackRecord e q)"

definition arXivResultsOf :: "env \<Rightarrow> string \<Rightarrow> result list" where
  "arXivResultsOf e q = (case arXivOutcome e q of Inl err \<Rightarrow> [] | Inr rs \<Rightarrow> rs)"

definition sustainabilityRecords :: "env \<Rightarrow> string \<Rightarrow> result list" where
  "sustainabilityRecords e q =
     (if length (arXivResultsOf e q) < 3 then arXivResultsOf e q @ [leedRecord e]
      else arXivResultsOf e q)"

definition sustainabilityEvents :: "env \<Rightarrow> string \<Rightarrow> event list" where
  "sustainabilityEvents e q =
     [mkEvent e ''Searching academic papers on sustainability'' (Some ''arXiv'')] @
     (if length (arXivResultsOf e q) > 0
      then [mkEvent e (''Found '' @ showNat (length (arXivResultsOf e q)) @
                       '' relevant academic papers on sustainability'') (Some ''arXiv'')]
      else []) @
     (if length (arXivResultsOf e q) < 3
      then [mkEvent e ''Searching LEED certification databases'' (Some ''USGBC LEED Database''),
            mkEvent e ''Retrieved LEED certification data'' (Some ''USGBC LEED Database'')]
      else [])"

definition entryEvent :: "adapter \<Rightarrow> env \<Rightarrow> event" where
  "entryEvent a e =
     (case a of
        Sustainability \<Rightarrow> mkEvent e ''Searching academic papers on sustainability'' (Some ''arXiv'')
      | Leasing \<Rightarrow> mkEvent e ''Searching for leasing market information'' (Some ''Leasing Service'')
      | Market \<Rightarrow> mkEvent e ''Analyzing market trend information'' (Some ''Market Service'')
      | Fallback \<Rightarrow> mkEvent e ''Searching general knowledge sources'' (Some ''Fallback Service''))"

text \<open>The adapters the handler runs for a category, in the order it runs them.\<close>

definition adaptersFor :: "string \<Rightarrow> adapter list" where
  "adaptersFor category =
     (if category = ''sustainability'' \<or> category = ''general'' then [Sustainability] else []) @
     (if category = ''leasing'' \<or> category = ''general'' then [Leasing] else []) @
     (if category = ''market'' \<or> category = ''general'' then [Market] else []) @
     [Fallback]"

definition adapterRecords :: "adapter \<Rightarrow> env \<Rightarrow> string \<Rightarrow> result list" where
  "adapterRecords a e q =
     (case a of Sustainability \<Rightarrow> sustainabilityRecords e q | _ \<Rightarrow> [cannedRecord a e q])"

definition handlerEvent :: "adapter \<Rightarrow> env \<Rightarrow> event" where
  "handlerEvent a e =
     (case a of
        Sustainability \<Rightarrow>
          mkEvent e ''Gathering sustainability research data'' (Some ''Sustainability databases'')
      | Leasing \<Rightarrow> mkEvent e ''Analyzing leasing market information'' (Some ''Leasing databases'')
      | Market \<Rightarrow> mkEvent e ''Retrieving market trend data'' (Some ''Market analytics providers'')
      | Fallback \<Rightarrow>
          mkEvent e ''Searching general knowledge sources''
            (Some ''Wikipedia and general databases''))"

definition adapterEvents :: "adapter \<Rightarrow> env \<Rightarrow> string \<Rightarrow> event list" where
  "adapterEvents a e q =
     handlerEvent a e #
     (case a of Sustainability \<Rightarrow> sustainabilityEvents e q | _ \<Rightarrow> [entryEvent a e])"

text \<open>The object the handler appends for a document context.\<close>

definition documentEntry :: "docval option \<Rightarrow> result" where
  "documentEntry documentContext =
     \<lparr>title = None, authors = None, source = Some ''Document Analysis'', link = None,
      date = None, summary = None, rtype = None, data = documentContext\<rparr>"

text \<open>The records that the adapters run for a category return, in the order of the runs.\<close>

definition adapterDerived :: "env \<Rightarrow> string \<Rightarrow> string \<Rightarrow> result list" where
  "adapterDerived e category q = concat (map (\<lambda>a. adapterRecords a e q) (adaptersFor category))"

definition gatheredItems :: "env \<Rightarrow> string \<Rightarrow> string \<Rightarrow> docval option \<Rightarrow> item list" where
  "gatheredItems e category q documentContext =
     map (\<lambda>a. Arr (map Some (adapterRecords a e q))) (adaptersFor category) @
     (if truthyDoc documentContext then [Elem (Some (documentEntry documentContext))] else [])"

definition gatheredEvents :: "env \<Rightarrow> string \<Rightarrow> string \<Rightarrow> docval option \<Rightarrow> event list" where
  "gatheredEvents e category q documentContext =
     concat (map (\<lambda>a. adapterEvents a e q) (adaptersFor category)) @
     (if truthyDoc documentContext
      then [mkEvent e ''Analyzing uploaded document context'' None] else [])"

text \<open>The model provider's answer as a function of the environment and the prompt.\<close>

definition chosenProvider :: "env \<Rightarrow> string" where
  "chosenProvider e = (if truthy (AI_PROVIDER e) then the (AI_PROVIDER e) else ''openai'')"

definition providerOutcome :: "env \<Rightarrow> messages \<Rightarrow> error + string" where
  "providerOutcome e msgs =
     (let provider = chosenProvider e; p = toLowerCase provider; apiKey = getApiKey e provider
      in if \<not> truthy apiKey
           then Inl (Error (''AI provider API key not configured for '' @ provider))
         else if p = ''openai'' then openAIOutcome e msgs (the apiKey)
         else if p = ''anthropic'' then anthropicOutcome e msgs (the apiKey)
         else if p = ''local'' then Inr (localResponse e msgs)
         else Inl (Error (''Unsupported AI provider: '' @ provider)))"


definition processEvents ::
  "env \<Rightarrow> string \<Rightarrow> result list \<Rightarrow> docval option \<Rightarrow> event list" where
  "processEvents e q flattened documentAnalysis =
     [mkEvent e ''Summarizing research findings'' (Some ''AI Service''),
      mkEvent e (''Found '' @ showNat (length flattened) @ '' relevant sources for research'')
        (Some ''Research Aggregator'')] @
     (if truthy (getApiKey e (chosenProvider e))
      then [mkEvent e (''Querying AI model ('' @ chosenProvider e @ '')'')
              (Some (providerLabel (chosenProvider e)))]
      else []) @
     (case providerOutcome e (prepareMessages e q flattened documentAnalysis) of
        Inl err \<Rightarrow>
          [mkEvent e (''Error in AI processing: '' @ message err) (Some ''AI Service'')]
      | Inr resp \<Rightarrow>
          [mkEvent e ''AI analysis complete, generating final response''
             (Some (providerLabel (chosenProvider e)))])"

text \<open>The flattened record sequence that the handler's call hands to the synthesis.\<close>

definition synthesisInput :: "env \<Rightarrow> string \<Rightarrow> docval option \<Rightarrow> result list" where
  "synthesisInput e q documentContext =
     filterBoolean (flat (gatheredItems e (categorizeQuery q) q documentContext))"

definition sessionEvents :: "env \<Rightarrow> string \<Rightarrow> docval option \<Rightarrow> event list" where
  "sessionEvents e q documentContext =
     [mkEvent e ''Starting research query categorization'' None,
      mkEvent e (''Query categorized as: '' @ categorizeQuery q) None] @
     gatheredEvents e (categorizeQuery q) q documentContext @
     [mkEvent e ''Processing research with AI analysis'' (Some ''OpenAI'')] @
     processEvents e q (synthesisInput e q documentContext) documentContext"

section \<open>Example inputs\<close>

text \<open>
  A machine without network access and without provider keys, configured for the local
  stub of the model provider; the state right after the server has started; a paper as
  the academic-paper search returns it.
\<close>

definition offlineEnv :: env where
  "offlineEnv =
     \<lparr>isoNow = ''2024-05-01T10:00:00.000Z'', localeDate = ''5/1/2024'',
      systemPrompt = ''You are a commercial real estate research assistant.'',
      arXivOutcome = (\<lambda>q. Inl (Error ''connect ENETUNREACH'')),
      AI_PROVIDER = Some ''local'', OPENAI_API_KEY = None, ANTHROPIC_API_KEY = None,
      openAIOutcome = (\<lambda>msgs key. Inl (Error ''connect ENETUNREACH'')),
      anthropicOutcome = (\<lambda>msgs key. Inl (Error ''connect ENETUNREACH'')),
      localResponse = (\<lambda>msgs. ''# Research on '' @ userQuery msgs)\<rparr>"

definition startState :: gstate where
  "startState = \<lparr>researchStatus = Some Map.empty, researchComplete = Some Map.empty, invoked = []\<rparr>"

definition samplePaper :: result where
  "samplePaper =
     mkResult ''Energy retrofits of office buildings'' ''A. Author, B. Author'' ''3/2/2023''
       ''arXiv'' ''http://arxiv.org/abs/2303.00001'' ''We study retrofits.'' ''academic_paper''"






section \<open>Properties of the categorization\<close>

lemma includesStr_iff_sublist: "includesStr s k \<longleftrightarrow> sublist k s"
  by (induction s) (auto simp: sublist_Cons_right)

lemma fold_count_acc:
  "fold (\<lambda>keyword n. if P keyword then n + 1 else n) ks a = a + length (filter P ks)"
  by (induction ks arbitrary: a) auto

lemma forEachMatch_filter:
  "forEachMatch ql ks = length (filter (includesStr ql) ks)"
  by (simp add: forEachMatch_def fold_count_acc)

lemma foldl_count_acc:
  "foldl (\<lambda>count keyword. count + (if P keyword then 1 else 0)) a ks = a + length (filter P ks)"
  by (induction ks arbitrary: a) auto

lemma countKeywordMatches_filter:
  "countKeywordMatches ql ks = length (filter (includesStr ql) ks)"
  by (simp add: countKeywordMatches_def foldl_count_acc)

lemma forEachMatch_pos_iff:
  "0 < forEachMatch ql ks \<longleftrightarrow> (\<exists>k \<in> set ks. includesStr ql k)"
  by (simp add: forEachMatch_filter filter_empty_conv)

lemma forEachMatch_zero_iff:
  "forEachMatch ql ks = 0 \<longleftrightarrow> (\<forall>k \<in> set ks. \<not> includesStr ql k)"
  by (simp add: forEachMatch_filter filter_empty_conv)

lemmas lower_defs = toLowerCase_def toLowerChar_def upperAlphabet_def lowerAlphabet_def

lemmas kw_defs = sustainabilityKeywords_def leasingKeywords_def marketKeywords_def
  qc_sustainabilityKeywords_def qc_leasingKeywords_def qc_marketTrendsKeywords_def

lemma countKeywordMatches_pos_iff:
  "0 < countKeywordMatches ql ks \<longleftrightarrow> (\<exists>k \<in> set ks. includesStr ql k)"
  by (simp add: countKeywordMatches_filter filter_empty_conv)

lemma countKeywordMatches_zero_iff:
  "countKeywordMatches ql ks = 0 \<longleftrightarrow> (\<forall>k \<in> set ks. \<not> includesStr ql k)"
  by (simp add: countKeywordMatches_filter filter_empty_conv)

lemma categorizeQuery_scores:
  "categorizeQuery q =
     (if forEachMatch (toLowerCase q) sustainabilityKeywords > forEachMatch (toLowerCase q) leasingKeywords \<and>
         forEachMatch (toLowerCase q) sustainabilityKeywords > forEachMatch (toLowerCase q) marketKeywords
        then ''sustainability''
      else if forEachMatch (toLowerCase q) leasingKeywords > forEachMatch (toLowerCase q) sustainabilityKeywords \<and>
         forEachMatch (toLowerCase q) leasingKeywords > forEachMatch (toLowerCase q) marketKeywords
        then ''leasing''
      else if forEachMatch (toLowerCase q) marketKeywords > 0 then ''market''
      else ''general'')"
  by (simp add: categorizeQuery_def Let_def)

subsection \<open>Ties\<close>

text \<open>
  C1. A query whose top score is tied among two or more categories, or whose three scores
  are all zero, is to be categorized as \<open>general\<close> by the categorization the research
  handler uses. The handler's \<open>categorizeQuery\<close> does not do so when the market score is
  positive: for the query \<open>green market\<close> the sustainability and market scores are both 1,
  the leasing score is 0, and the result is \<open>market\<close>.
\<close>

theorem categorizeQuery_tied_scores_market:
  "forEachMatch (toLowerCase ''green market'') sustainabilityKeywords = 1 \<and>
   forEachMatch (toLowerCase ''green market'') leasingKeywords = 0 \<and>
   forEachMatch (toLowerCase ''green market'') marketKeywords = 1 \<and>
   categorizeQuery ''green market'' = ''market''"
  by (simp add: categorizeQuery_def forEachMatch_def lower_defs kw_defs)

text \<open>
  The market branch of \<open>categorizeQuery\<close> only asks for a positive market score, so
  \<open>market\<close> is returned even when market is not among the top scores.
\<close>

lemma categorizeQuery_below_top_market:
  "forEachMatch (toLowerCase ''green carbon lease rent price'') sustainabilityKeywords = 2 \<and>
   forEachMatch (toLowerCase ''green carbon lease rent price'') leasingKeywords = 2 \<and>
   forEachMatch (toLowerCase ''green carbon lease rent price'') marketKeywords = 1 \<and>
   categorizeQuery ''green carbon lease rent price'' = ''market''"
  by (simp add: categorizeQuery_def forEachMatch_def lower_defs kw_defs)

text \<open>
  What \<open>categorizeQuery\<close> does return \<open>general\<close> for: exactly the queries with no market
  keyword in which neither of the other two scores is above the other.
\<close>

lemma categorizeQuery_general_iff:
  "categorizeQuery q = ''general'' \<longleftrightarrow>
     forEachMatch (toLowerCase q) marketKeywords = 0 \<and>
     forEachMatch (toLowerCase q) sustainabilityKeywords =
       forEachMatch (toLowerCase q) leasingKeywords"
  by (auto simp: categorizeQuery_scores)

text \<open>
  The stand-alone \<open>QueryCategorizer.categorize\<close> compares the market score with the other
  two as it does for the other categories, and returns \<open>general\<close> on every tie for the top
  score (which covers the case of three zero scores).
\<close>

lemma categorize_ties_general:
  assumes "let ql = toLowerCase q;
               s = countKeywordMatches ql qc_sustainabilityKeywords;
               l = countKeywordMatches ql qc_leasingKeywords;
               m = countKeywordMatches ql qc_marketTrendsKeywords
           in (s = l \<and> m \<le> s) \<or> (s = m \<and> l \<le> s) \<or> (l = m \<and> s \<le> l)"
  shows "categorize q = ''general''"
  using assms by (auto simp: categorize_def Let_def)

lemma categorize_tie_example: "categorize ''green market'' = ''general''"
  by (simp add: categorize_def countKeywordMatches_def lower_defs kw_defs)

subsection \<open>Queries with keywords of one category only\<close>

text \<open>
  C8. A query that contains at least one keyword of exactly one category's keyword list and
  no keyword of the other two lists is categorized as that category; a query that contains
  no keyword of any list is categorized as \<open>general\<close>. (Containment is that of the
  lower-cased query, as a substring.)
\<close>

theorem categorizeQuery_single_category:
  "((\<exists>k \<in> set sustainabilityKeywords. includesStr (toLowerCase q) k) \<and>
    (\<forall>k \<in> set leasingKeywords. \<not> includesStr (toLowerCase q) k) \<and>
    (\<forall>k \<in> set marketKeywords. \<not> includesStr (toLowerCase q) k)
      \<longrightarrow> categorizeQuery q = ''sustainability'') \<and>
   ((\<exists>k \<in> set leasingKeywords. includesStr (toLowerCase q) k) \<and>
    (\<forall>k \<in> set sustainabilityKeywords. \<not> includesStr (toLowerCase q) k) \<and>
    (\<forall>k \<in> set marketKeywords. \<not> includesStr (toLowerCase q) k)
      \<longrightarrow> categorizeQuery q = ''leasing'') \<and>
   ((\<exists>k \<in> set marketKeywords. includesStr (toLowerCase q) k) \<and>
    (\<forall>k \<in> set sustainabilityKeywords. \<not> includesStr (toLowerCase q) k) \<and>
    (\<forall>k \<in> set leasingKeywords. \<not> includesStr (toLowerCase q) k)
      \<longrightarrow> categorizeQuery q = ''market'') \<and>
   ((\<forall>k \<in> set sustainabilityKeywords. \<not> includesStr (toLowerCase q) k) \<and>
    (\<forall>k \<in> set leasingKeywords. \<not> includesStr (toLowerCase q) k) \<and>
    (\<forall>k \<in> set marketKeywords. \<not> includesStr (toLowerCase q) k)
      \<longrightarrow> categorizeQuery q = ''general'')"
proof -
  let ?s = "forEachMatch (toLowerCase q) sustainabilityKeywords"
  let ?l = "forEachMatch (toLowerCase q) leasingKeywords"
  let ?m = "forEachMatch (toLowerCase q) marketKeywords"
  have s: "0 < ?s \<Longrightarrow> ?l = 0 \<Longrightarrow> ?m = 0 \<Longrightarrow> categorizeQuery q = ''sustainability''"
    by (simp add: categorizeQuery_scores)
  have l: "0 < ?l \<Longrightarrow> ?s = 0 \<Longrightarrow> ?m = 0 \<Longrightarrow> categorizeQuery q = ''leasing''"
    by (simp add: categorizeQuery_scores)
  have m: "0 < ?m \<Longrightarrow> ?s = 0 \<Longrightarrow> ?l = 0 \<Longrightarrow> categorizeQuery q = ''market''"
    by (simp add: categorizeQuery_scores)
  have g: "?s = 0 \<Longrightarrow> ?l = 0 \<Longrightarrow> ?m = 0 \<Longrightarrow> categorizeQuery q = ''general''"
    by (simp add: categorizeQuery_scores)
  show ?thesis
    using s l m g
    unfolding forEachMatch_pos_iff forEachMatch_zero_iff by blast
qed

theorem categorizeQuery_single_category_witness:
  "categorizeQuery ''LEED gold'' = ''sustainability'' \<and>
   categorizeQuery ''Tenant mix'' = ''leasing'' \<and>
   categorizeQuery ''five year forecast'' = ''market'' \<and>
   categorizeQuery ''hello world'' = ''general''"
proof -
  have hs: "(\<exists>k \<in> set sustainabilityKeywords. includesStr (toLowerCase ''LEED gold'') k) \<and>
    (\<forall>k \<in> set leasingKeywords. \<not> includesStr (toLowerCase ''LEED gold'') k) \<and>
    (\<forall>k \<in> set marketKeywords. \<not> includesStr (toLowerCase ''LEED gold'') k)"
    by (simp add: lower_defs kw_defs)
  have hl: "(\<exists>k \<in> set leasingKeywords. includesStr (toLowerCase ''Tenant mix'') k) \<and>
    (\<forall>k \<in> set sustainabilityKeywords. \<not> includesStr (toLowerCase ''Tenant mix'') k) \<and>
    (\<forall>k \<in> set marketKeywords. \<not> includesStr (toLowerCase ''Tenant mix'') k)"
    by (simp add: lower_defs kw_defs)
  have hm: "(\<exists>k \<in> set marketKeywords. includesStr (toLowerCase ''five year forecast'') k) \<and>
    (\<forall>k \<in> set sustainabilityKeywords. \<not> includesStr (toLowerCase ''five year forecast'') k) \<and>
    (\<forall>k \<in> set leasingKeywords. \<not> includesStr (toLowerCase ''five year forecast'') k)"
    by (simp add: lower_defs kw_defs)
  have hg: "(\<forall>k \<in> set sustainabilityKeywords. \<not> includesStr (toLowerCase ''hello world'') k) \<and>
    (\<forall>k \<in> set leasingKeywords. \<not> includesStr (toLowerCase ''hello world'') k) \<and>
    (\<forall>k \<in> set marketKeywords. \<not> includesStr (toLowerCase ''hello world'') k)"
    by (simp add: lower_defs kw_defs)
  from hs categorizeQuery_single_category [of "''LEED gold''"]
  have 1: "categorizeQuery ''LEED gold'' = ''sustainability''" by blast
  from hl categorizeQuery_single_category [of "''Tenant mix''"]
  have 2: "categorizeQuery ''Tenant mix'' = ''leasing''" by blast
  from hm categorizeQuery_single_category [of "''five year forecast''"]
  have 3: "categorizeQuery ''five year forecast'' = ''market''" by blast
  from hg categorizeQuery_single_category [of "''hello world''"]
  have 4: "categorizeQuery ''hello world'' = ''general''" by blast
  from 1 2 3 4 show ?thesis by blast
qed

text \<open>
  The stand-alone categorizer has the same property on its own keyword lists; its label
  for the market category is \<open>market_trends\<close>.
\<close>

lemma categorize_single_category:
  "((\<exists>k \<in> set qc_sustainabilityKeywords. includesStr (toLowerCase q) k) \<and>
    (\<forall>k \<in> set qc_leasingKeywords. \<not> includesStr (toLowerCase q) k) \<and>
    (\<forall>k \<in> set qc_marketTrendsKeywords. \<not> includesStr (toLowerCase q) k)
      \<longrightarrow> categorize q = ''sustainability'') \<and>
   ((\<exists>k \<in> set qc_leasingKeywords. includesStr (toLowerCase q) k) \<and>
    (\<forall>k \<in> set qc_sustainabilityKeywords. \<not> includesStr (toLowerCase q) k) \<and>
    (\<forall>k \<in> set qc_marketTrendsKeywords. \<not> includesStr (toLowerCase q) k)
      \<longrightarrow> categorize q = ''leasing'') \<and>
   ((\<exists>k \<in> set qc_marketTrendsKeywords. includesStr (toLowerCase q) k) \<and>
    (\<forall>k \<in> set qc_sustainabilityKeywords. \<not> includesStr (toLowerCase q) k) \<and>
    (\<forall>k \<in> set qc_leasingKeywords. \<not> includesStr (toLowerCase q) k)
      \<longrightarrow> categorize q = ''market_trends'') \<and>
   ((\<forall>k \<in> set qc_sustainabilityKeywords. \<not> includesStr (toLowerCase q) k) \<and>
    (\<forall>k \<in> set qc_leasingKeywords. \<not> includesStr (toLowerCase q) k) \<and>
    (\<forall>k \<in> set qc_marketTrendsKeywords. \<not> includesStr (toLowerCase q) k)
      \<longrightarrow> categorize q = ''general'')"
proof -
  let ?s = "countKeywordMatches (toLowerCase q) qc_sustainabilityKeywords"
  let ?l = "countKeywordMatches (toLowerCase q) qc_leasingKeywords"
  let ?m = "countKeywordMatches (toLowerCase q) qc_marketTrendsKeywords"
  have s: "0 < ?s \<Longrightarrow> ?l = 0 \<Longrightarrow> ?m = 0 \<Longrightarrow> categorize q = ''sustainability''"
    by (simp add: categorize_def Let_def)
  have l: "0 < ?l \<Longrightarrow> ?s = 0 \<Longrightarrow> ?m = 0 \<Longrightarrow> categorize q = ''leasing''"
    by (simp add: categorize_def Let_def)
  have m: "0 < ?m \<Longrightarrow> ?s = 0 \<Longrightarrow> ?l = 0 \<Longrightarrow> categorize q = ''market_trends''"
    by (simp add: categorize_def Let_def)
  have g: "?s = 0 \<Longrightarrow> ?l = 0 \<Longrightarrow> ?m = 0 \<Longrightarrow> categorize q = ''general''"
    by (simp add: categorize_def Let_def)
  show ?thesis
    using s l m g
    unfolding countKeywordMatches_pos_iff countKeywordMatches_zero_iff by blast
qed


section \<open>Properties of the services and of the handler\<close>


lemmas prog_defs = returnP_def throwP_def liftP_def bindP_def thenP_def catchP_def

lemma appendEvents_Nil [simp]: "appendEvents sid [] st = st"
  by (auto simp: appendEvents_def map_upd_triv split: option.splits)

lemma effect_Nil [simp]: "effect sid [] [] st = st"
  by (simp add: effect_def)

lemma effect_effect [simp]:
  "effect sid evs2 as2 (effect sid evs1 as1 st) = effect sid (evs1 @ evs2) (as1 @ as2) st"
  by (auto simp: effect_def appendEvents_def split: option.splits)


lemma canLog_effect [simp]: "canLog sid' (effect sid evs as st) = canLog sid' st"
  by (auto simp: effect_def appendEvents_def canLog_def split: option.splits)

lemma sessionOpen_effect [simp]: "sessionOpen s (effect sid evs as st) = sessionOpen s st"
  by (auto simp: effect_def appendEvents_def sessionOpen_def split: option.splits)

lemma researchComplete_effect [simp]:
  "researchComplete (effect sid evs as st) = researchComplete st"
  by (auto simp: effect_def appendEvents_def split: option.splits)

lemma invoked_effect [simp]: "invoked (effect sid evs as st) = invoked st @ as"
  by (auto simp: effect_def appendEvents_def split: option.splits)

lemma sessionOpen_canLog: "sessionOpen s st \<Longrightarrow> canLog sid st"
  by (auto simp: sessionOpen_def canLog_def split: option.splits)

lemma statusExists_canLog: "statusExists st \<Longrightarrow> canLog sid st"
  by (simp add: statusExists_def canLog_def)

lemma logIfSession_effect:
  "canLog sid st \<Longrightarrow> logIfSession sid ev st = (Inr (), effect sid [ev] [] st)"
  by (auto simp: logIfSession_def effect_def appendEvents_def canLog_def
      split: option.splits)

lemma logIfSession_raises:
  "\<not> canLog sid st \<Longrightarrow>
   logIfSession sid ev st = (Inl (TypeError ''Cannot read properties of undefined''), st)"
  by (simp add: logIfSession_def canLog_def)

lemma enter_effect: "enter a st = (Inr (), effect sid [] [a] st)"
  by (simp add: enter_def effect_def)

lemma pushStatus_effect:
  "sessionOpen s st \<Longrightarrow> s \<noteq> [] \<Longrightarrow> pushStatus s ev st = (Inr (), effect (Some s) [ev] [] st)"
  by (auto simp: pushStatus_def effect_def appendEvents_def sessionOpen_def
      split: option.splits)

lemma LeasingService_getResearch_effect:
  "canLog sid st \<Longrightarrow>
   LeasingService_getResearch e q sid st =
     (Inr [leasingRecord e q], effect sid [entryEvent Leasing e] [Leasing] st)"
  by (simp add: LeasingService_getResearch_def prog_defs logIfSession_effect
      enter_effect [of _ _ sid] leasingRecord_def entryEvent_def)

lemma MarketService_getResearch_effect:
  "canLog sid st \<Longrightarrow>
   MarketService_getResearch e q sid st =
     (Inr [marketRecord e q], effect sid [entryEvent Market e] [Market] st)"
  by (simp add: MarketService_getResearch_def prog_defs logIfSession_effect
      enter_effect [of _ _ sid] marketRecord_def entryEvent_def)

lemma FallbackService_getResearch_effect:
  "canLog sid st \<Longrightarrow>
   FallbackService_getResearch e q sid st =
     (Inr [fallbackRecord e q], effect sid [entryEvent Fallback e] [Fallback] st)"
  by (simp add: FallbackService_getResearch_def prog_defs logIfSession_effect
      enter_effect [of _ _ sid] fallbackRecord_def entryEvent_def)

lemma searchArXiv_eq: "searchArXiv e q st = (Inr (arXivResultsOf e q), st)"
  by (simp add: searchArXiv_def prog_defs arXivResultsOf_def split: sum.splits)

lemma searchLEED_eq: "searchLEED e q st = (Inr [leedRecord e], st)"
  by (simp add: searchLEED_def prog_defs leedRecord_def)

lemma SustainabilityService_getResearch_effect:
  "canLog sid st \<Longrightarrow>
   SustainabilityService_getResearch e q sid st =
     (Inr (sustainabilityRecords e q), effect sid (sustainabilityEvents e q) [Sustainability] st)"
  by (simp add: SustainabilityService_getResearch_def getResearchWith_def prog_defs
      logIfSession_effect enter_effect [of _ _ sid] searchArXiv_eq searchLEED_eq
      sustainabilityRecords_def sustainabilityEvents_def)


lemma getResearch_raises:
  "\<not> canLog sid st \<Longrightarrow>
   fst (getResearch a e q sid st) = Inl (TypeError ''Cannot read properties of undefined'')"
  by (cases a)
     (simp_all add: SustainabilityService_getResearch_def LeasingService_getResearch_def
        MarketService_getResearch_def FallbackService_getResearch_def getResearchWith_def
        prog_defs logIfSession_raises enter_def canLog_def)


lemma getResearchWith_snd:
  assumes "canLog sid st"
  shows "canLog sid (snd (getResearchWith e (liftP a) (liftP l) sid st))"
  using assms
  by (cases a; cases l)
     (simp_all add: getResearchWith_def prog_defs logIfSession_effect)

lemma gatherResults_effect:
  assumes "sessionOpen s st" "s \<noteq> []"
  shows "gatherResults e c q s dc st =
           (Inr (gatheredItems e c q dc),
            effect (Some s) (gatheredEvents e c q dc) (adaptersFor c) st)"
  using assms sessionOpen_canLog [OF assms(1), of "Some s"]
  by (simp add: gatherResults_def prog_defs pushStatus_effect
      SustainabilityService_getResearch_effect LeasingService_getResearch_effect
      MarketService_getResearch_effect FallbackService_getResearch_effect
      gatheredItems_def gatheredEvents_def adaptersFor_def adapterRecords_def
      adapterEvents_def cannedRecord_def handlerEvent_def documentEntry_def Let_def)

lemma callProvider_eq:
  "truthy (getApiKey e (chosenProvider e)) \<Longrightarrow>
   callProvider e (chosenProvider e) msgs (the (getApiKey e (chosenProvider e))) st =
     (providerOutcome e msgs, st)"
  by (simp add: callProvider_def providerOutcome_def prog_defs Let_def)

lemma providerOutcome_no_key:
  "\<not> truthy (getApiKey e (chosenProvider e)) \<Longrightarrow>
   providerOutcome e msgs =
     Inl (Error (''AI provider API key not configured for '' @ chosenProvider e))"
  by (simp add: providerOutcome_def Let_def)

lemma processResearch_effect:
  assumes "canLog sid st"
  shows "AIService_processResearch e q rr dc sid st =
           (case providerOutcome e (prepareMessages e q (filterBoolean (flat rr)) dc) of
              Inr resp \<Rightarrow> Inr \<lparr>response = resp, citations = map citationOf (filterBoolean (flat rr))\<rparr>
            | Inl err \<Rightarrow> Inl (Error (''Failed to process research with AI: '' @ message err)),
            effect sid (processEvents e q (filterBoolean (flat rr)) dc) [] st)"
proof (cases "truthy (getApiKey e (chosenProvider e))")
  case False
  then show ?thesis
    using assms
    by (simp add: AIService_processResearch_def prog_defs logIfSession_effect Let_def
        processEvents_def providerOutcome_no_key chosenProvider_def [symmetric])
next
  case True
  then show ?thesis
    using assms
    by (cases "providerOutcome e (prepareMessages e q (filterBoolean (flat rr)) dc)")
       (simp_all add: AIService_processResearch_def prog_defs logIfSession_effect Let_def
        processEvents_def callProvider_eq chosenProvider_def [symmetric])
qed


lemma processResearch_raises:
  "\<not> canLog sid st \<Longrightarrow> \<exists>err. fst (AIService_processResearch e q rr dc sid st) = Inl err"
  by (simp add: AIService_processResearch_def prog_defs logIfSession_raises canLog_def)

lemma filterBoolean_map_Some [simp]: "filterBoolean (map Some rs) = rs"
  by (induction rs) auto

lemma filterBoolean_append [simp]:
  "filterBoolean (xs @ ys) = filterBoolean xs @ filterBoolean ys"
  by (induction xs rule: filterBoolean.induct) auto

lemma flat_append [simp]: "flat (xs @ ys) = flat xs @ flat ys"
  by (induction xs rule: flat.induct) auto

lemma flat_map_Arr: "filterBoolean (flat (map (\<lambda>g. Arr (map Some (f g))) gs)) = concat (map f gs)"
  by (induction gs) auto

lemma synthesisInput_eq:
  "synthesisInput e q dc =
     adapterDerived e (categorizeQuery q) q @ (if truthyDoc dc then [documentEntry dc] else [])"
  by (simp add: synthesisInput_def gatheredItems_def adapterDerived_def flat_map_Arr)

lemma effect_fresh:
  "effect (Some s) evs as (st\<lparr>researchStatus := Some (m(s \<mapsto> [])), researchComplete := X\<rparr>) =
     (if s = [] then st\<lparr>researchStatus := Some (m(s \<mapsto> [])), researchComplete := X, invoked := invoked st @ as\<rparr>
      else st\<lparr>researchStatus := Some (m(s \<mapsto> evs)), researchComplete := X, invoked := invoked st @ as\<rparr>)"
  by (simp add: effect_def appendEvents_def)

lemma researchQuery_effect:
  assumes "researchStatus st = Some m" "researchComplete st = Some mc" "s \<noteq> []"
  shows "researchQuery e q s dc st =
     (case providerOutcome e (prepareMessages e q (synthesisInput e q dc) dc) of
        Inr resp \<Rightarrow>
          (Inr \<lparr>response = resp, citations = map citationOf (synthesisInput e q dc)\<rparr>,
           st\<lparr>researchStatus := Some (m(s \<mapsto> sessionEvents e q dc)),
              researchComplete := Some (mc(s \<mapsto> True)),
              invoked := invoked st @ adaptersFor (categorizeQuery q)\<rparr>)
      | Inl err \<Rightarrow>
          (Inl (Error (''Failed to process research with AI: '' @ message err)),
           st\<lparr>researchStatus := Some (m(s \<mapsto> sessionEvents e q dc)),
              researchComplete := Some (mc(s \<mapsto> False)),
              invoked := invoked st @ adaptersFor (categorizeQuery q)\<rparr>))"
proof -
  let ?st0 = "st\<lparr>researchStatus := Some (m(s \<mapsto> [])), researchComplete := Some (mc(s \<mapsto> False))\<rparr>"
  have init: "setStatus s [] st = (Inr (), st\<lparr>researchStatus := Some (m(s \<mapsto> []))\<rparr>)"
    by (simp add: setStatus_def assms)
  have init2: "setComplete s False (st\<lparr>researchStatus := Some (m(s \<mapsto> []))\<rparr>) = (Inr (), ?st0)"
    by (simp add: setComplete_def assms)
  have open0: "sessionOpen s ?st0"
    by (simp add: sessionOpen_def)
  show ?thesis
    unfolding researchQuery_def thenP_def bindP_def Let_def init
    apply (simp add: init2 pushStatus_effect open0 assms(3) gatherResults_effect
        processResearch_effect sessionOpen_canLog [OF open0] synthesisInput_def [symmetric]
        returnP_def
        split: sum.splits)
    apply (simp add: setComplete_def returnP_def effect_fresh assms(3) sessionEvents_def)
    done
qed


lemma researchQuery_no_status:
  "researchStatus st = None \<Longrightarrow>
   researchQuery e q s dc st = (Inl (TypeError ''Cannot set properties of undefined''), st)"
  by (simp add: researchQuery_def thenP_def bindP_def setStatus_def)

lemma researchQuery_no_complete:
  "researchStatus st = Some m \<Longrightarrow> researchComplete st = None \<Longrightarrow>
   researchQuery e q s dc st =
     (Inl (TypeError ''Cannot set properties of undefined''),
      st\<lparr>researchStatus := Some (m(s \<mapsto> []))\<rparr>)"
  by (simp add: researchQuery_def thenP_def bindP_def setStatus_def setComplete_def)

lemma handleResearchQuery_invalid:
  "\<not> truthy (req_query req) \<or> \<not> truthy (req_sessionId req) \<Longrightarrow>
   handleResearchQuery e req st =
     (Response 400 (if \<not> truthy (req_query req) then MessageBody ''Query is required''
                    else ErrorBody ''Session ID is required''), st)"
  by (auto simp: handleResearchQuery_def)

lemma handleResearchQuery_valid:
  assumes "truthy (req_query req)" "truthy (req_sessionId req)"
    and "researchStatus st = Some m" "researchComplete st = Some mc"
  shows "handleResearchQuery e req st =
     (case providerOutcome e
             (prepareMessages e (the (req_query req))
                (synthesisInput e (the (req_query req)) (req_documentContext req))
                (req_documentContext req)) of
        Inr resp \<Rightarrow>
          (Response 200
             (AiBody \<lparr>response = resp,
                      citations = map citationOf
                        (synthesisInput e (the (req_query req)) (req_documentContext req))\<rparr>),
           st\<lparr>researchStatus := Some (m(the (req_sessionId req) \<mapsto>
                  sessionEvents e (the (req_query req)) (req_documentContext req))),
              researchComplete := Some (mc(the (req_sessionId req) \<mapsto> True)),
              invoked := invoked st @ adaptersFor (categorizeQuery (the (req_query req)))\<rparr>)
      | Inl err \<Rightarrow>
          (Response 500
             (MessageErrorBody ''Error processing query''
                (''Failed to process research with AI: '' @ message err)),
           st\<lparr>researchStatus := Some (m(the (req_sessionId req) \<mapsto>
                  sessionEvents e (the (req_query req)) (req_documentContext req))),
              researchComplete := Some (mc(the (req_sessionId req) \<mapsto> False)),
              invoked := invoked st @ adaptersFor (categorizeQuery (the (req_query req)))\<rparr>))"
proof -
  from assms(2) have "the (req_sessionId req) \<noteq> []"
    by (cases "req_sessionId req") auto
  from researchQuery_effect [OF assms(3,4) this] assms(1,2)
  show ?thesis
    by (simp add: handleResearchQuery_def split: sum.splits)
qed

lemma handleResearchQuery_200:
  assumes "fst (handleResearchQuery e req st) = Response 200 b"
  shows "truthy (req_query req) \<and> truthy (req_sessionId req) \<and>
         researchStatus st \<noteq> None \<and> researchComplete st \<noteq> None"
proof -
  have v: "truthy (req_query req) \<and> truthy (req_sessionId req)"
    using assms by (auto simp: handleResearchQuery_def split: if_splits)
  have s: "researchStatus st \<noteq> None"
  proof
    assume "researchStatus st = None"
    then have "status (fst (handleResearchQuery e req st)) = 500"
      using v by (simp add: handleResearchQuery_def researchQuery_no_status)
    with assms show False by simp
  qed
  have c: "researchComplete st \<noteq> None"
  proof
    assume n: "researchComplete st = None"
    from s obtain m where "researchStatus st = Some m" by auto
    then have "status (fst (handleResearchQuery e req st)) = 500"
      using v n by (simp add: handleResearchQuery_def researchQuery_no_complete)
    with assms show False by simp
  qed
  from v s c show ?thesis by simp
qed


lemma truthy_the: "truthy x \<Longrightarrow> the x \<noteq> []"
  by (cases x) auto

subsection \<open>Requests that fail validation\<close>

text \<open>
  C5. A request in which the query or the session id is missing fails at once with status
  400 (the message \<open>Query is required\<close>, respectively the error
  \<open>Session ID is required\<close>); the state is what it was, so no session entry is created
  or reset, and no adapter is entered.
\<close>

theorem invalid_request_rejected:
  assumes "\<not> truthy (req_query req) \<or> \<not> truthy (req_sessionId req)"
  shows "status (fst (handleResearchQuery e req st)) = 400 \<and>
         body (fst (handleResearchQuery e req st)) =
           (if \<not> truthy (req_query req) then MessageBody ''Query is required''
            else ErrorBody ''Session ID is required'') \<and>
         snd (handleResearchQuery e req st) = st \<and>
         researchStatus (snd (handleResearchQuery e req st)) = researchStatus st \<and>
         researchComplete (snd (handleResearchQuery e req st)) = researchComplete st \<and>
         invoked (snd (handleResearchQuery e req st)) = invoked st"
  using assms by (simp add: handleResearchQuery_invalid)

theorem invalid_request_rejected_witness:
  "status (fst (handleResearchQuery offlineEnv
      \<lparr>req_query = Some ''office rents'', req_sessionId = None, req_documentContext = None\<rparr>
      startState)) = 400 \<and>
   body (fst (handleResearchQuery offlineEnv
      \<lparr>req_query = Some ''office rents'', req_sessionId = None, req_documentContext = None\<rparr>
      startState)) = ErrorBody ''Session ID is required'' \<and>
   snd (handleResearchQuery offlineEnv
      \<lparr>req_query = Some ''office rents'', req_sessionId = None, req_documentContext = None\<rparr>
      startState) = startState \<and>
   invoked (snd (handleResearchQuery offlineEnv
      \<lparr>req_query = Some ''office rents'', req_sessionId = None, req_documentContext = None\<rparr>
      startState)) = []"
proof -
  let ?req = "\<lparr>req_query = Some ''office rents'', req_sessionId = None, req_documentContext = None\<rparr>"
  have h: "\<not> truthy (req_query ?req) \<or> \<not> truthy (req_sessionId ?req)"
    by simp
  from invalid_request_rejected [OF h, of offlineEnv startState]
  show ?thesis by (simp add: startState_def)
qed

subsection \<open>The completion flag\<close>

text \<open>
  The completion step is the assignment that follows the return of the synthesis call;
  the handler answers with status 200 exactly on the runs that reach it.
\<close>

lemma completeFlag_eq:
  "s \<noteq> [] \<Longrightarrow> researchStatus st = Some ms \<Longrightarrow> researchComplete st = Some mc \<Longrightarrow>
   completeFlag s st = Some (case mc s of None \<Rightarrow> False | Some b \<Rightarrow> b)"
  by (simp add: completeFlag_def getResearchStatus_def)


text \<open>A valid request on the example machine, from the start state.\<close>

lemma offline_request:
  assumes "q \<noteq> []" "s \<noteq> []"
  shows "handleResearchQuery offlineEnv
           \<lparr>req_query = Some q, req_sessionId = Some s, req_documentContext = dc\<rparr> startState =
         (Response 200
             (AiBody \<lparr>response = ''# Research on '' @ q,
                      citations = map citationOf (synthesisInput offlineEnv q dc)\<rparr>),
           \<lparr>researchStatus = Some [s \<mapsto> sessionEvents offlineEnv q dc],
            researchComplete = Some [s \<mapsto> True],
            invoked = adaptersFor (categorizeQuery q)\<rparr>)"
proof -
  have p: "\<And>msgs. providerOutcome offlineEnv msgs = Inr (''# Research on '' @ userQuery msgs)"
    by (simp add: providerOutcome_def chosenProvider_def getApiKey_def lower_defs Let_def
        offlineEnv_def)
  have "truthy (req_query \<lparr>req_query = Some q, req_sessionId = Some s, req_documentContext = dc\<rparr>)"
    "truthy (req_sessionId \<lparr>req_query = Some q, req_sessionId = Some s, req_documentContext = dc\<rparr>)"
    "researchStatus startState = Some Map.empty" "researchComplete startState = Some Map.empty"
    using assms by (simp_all add: startState_def)
  from handleResearchQuery_valid [OF this, of offlineEnv]
  show ?thesis
    by (simp add: p prepareMessages_def startState_def)
qed




subsection \<open>The adapters do not raise\<close>






text \<open>Without the map, a call with a session id does raise.\<close>

lemma getResearch_raises_without_map:
  "truthy sid \<Longrightarrow> researchStatus st = None \<Longrightarrow>
   fst (getResearch a e q sid st) = Inl (TypeError ''Cannot read properties of undefined'')"
  by (rule getResearch_raises) (simp add: canLog_def)

subsection \<open>Citations\<close>

text \<open>
  C6. Whenever the synthesis step returns, its citation list is the list of the records it
  was given (the flattened input, falsy entries dropped), projected one by one to
  \<open>title\<close>, \<open>authors\<close>, \<open>source\<close>, \<open>link\<close>, \<open>date\<close>: the same length, the same
  order, entry \<open>i\<close> from record \<open>i\<close>, whatever the records contain.
\<close>

theorem citations_positional:
  assumes "AIService_processResearch e q rr dc sid st = (Inr ai, st')"
  shows "citations ai = map citationOf (filterBoolean (flat rr)) \<and>
         length (citations ai) = length (filterBoolean (flat rr)) \<and>
         (\<forall>i < length (filterBoolean (flat rr)).
            citations ai ! i =
              \<lparr>title = title (filterBoolean (flat rr) ! i),
               authors = authors (filterBoolean (flat rr) ! i),
               source = source (filterBoolean (flat rr) ! i),
               link = link (filterBoolean (flat rr) ! i),
               date = date (filterBoolean (flat rr) ! i)\<rparr>) \<and>
         (\<forall>rs. rr = [Arr (map Some rs)] \<longrightarrow> citations ai = map citationOf rs)"
proof -
  have c: "canLog sid st"
  proof (rule ccontr)
    assume "\<not> canLog sid st"
    from processResearch_raises [OF this, of e q rr dc] assms show False by auto
  qed
  from processResearch_effect [OF c, of e q rr dc] assms
  have 1: "citations ai = map citationOf (filterBoolean (flat rr))"
    by (cases "providerOutcome e (prepareMessages e q (filterBoolean (flat rr)) dc)") auto
  then show ?thesis
    by (auto simp: citationOf_def)
qed

theorem citations_positional_witness:
  "\<exists>ai st'.
     AIService_processResearch offlineEnv ''leed''
       [Arr [Some samplePaper, Some (leedRecord offlineEnv)]] None None startState = (Inr ai, st') \<and>
     citations ai = [citationOf samplePaper, citationOf (leedRecord offlineEnv)]"
proof -
  have p: "\<And>msgs. providerOutcome offlineEnv msgs = Inr (''# Research on '' @ userQuery msgs)"
    by (simp add: providerOutcome_def chosenProvider_def getApiKey_def lower_defs Let_def
        offlineEnv_def)
  have c: "canLog None startState"
    by (simp add: canLog_def)
  obtain ai st' where r: "AIService_processResearch offlineEnv ''leed''
       [Arr [Some samplePaper, Some (leedRecord offlineEnv)]] None None startState = (Inr ai, st')"
    using processResearch_effect [OF c, of offlineEnv "''leed''"
        "[Arr [Some samplePaper, Some (leedRecord offlineEnv)]]" None]
    by (simp add: p)
  from citations_positional [OF r]
  have "citations ai = [citationOf samplePaper, citationOf (leedRecord offlineEnv)]"
    by simp
  with r show ?thesis by blast
qed


subsection \<open>The document context\<close>

lemma handleResearchQuery_citations:
  assumes "fst (handleResearchQuery e req st) = Response 200 (AiBody ai)"
  shows "citations ai =
           map citationOf (synthesisInput e (the (req_query req)) (req_documentContext req))"
proof -
  from handleResearchQuery_200 [OF assms]
  obtain m mc where v: "truthy (req_query req)" "truthy (req_sessionId req)"
    and m: "researchStatus st = Some m" and mc: "researchComplete st = Some mc"
    by auto
  from handleResearchQuery_valid [OF v m mc, of e] assms
  show ?thesis
    by (cases "providerOutcome e
             (prepareMessages e (the (req_query req))
                (synthesisInput e (the (req_query req)) (req_documentContext req))
                (req_documentContext req))") auto
qed

lemma categorizeQuery_hello: "categorizeQuery ''hello'' = ''general''"
  by (simp add: categorizeQuery_def forEachMatch_def lower_defs kw_defs)

text \<open>
  C2, as the handler has it. For a request with a (truthy) document context, the record
  sequence handed to the synthesis ends with the \<open>Document Analysis\<close> entry, after all
  records of the adapters; and the citation list of the answer has one entry for each
  adapter record followed by one entry for the \<open>Document Analysis\<close> entry, whose source
  is \<open>Document Analysis\<close> and whose other properties are undefined. Its length is the
  number of adapter records plus one.
\<close>

theorem document_entry_cited:
  assumes "truthyDoc (req_documentContext req)"
  shows "(sessionOpen s st1 \<and> s \<noteq> [] \<longrightarrow>
            (\<exists>rr st2. gatherResults e c q s (req_documentContext req) st1 = (Inr rr, st2) \<and>
               filterBoolean (flat rr) =
                 adapterDerived e c q @ [documentEntry (req_documentContext req)] \<and>
               source (last (filterBoolean (flat rr))) = Some ''Document Analysis'')) \<and>
         (\<forall>ai. fst (handleResearchQuery e req st) = Response 200 (AiBody ai) \<longrightarrow>
            citations ai =
              map citationOf
                (adapterDerived e (categorizeQuery (the (req_query req))) (the (req_query req))) @
              [\<lparr>title = None, authors = None, source = Some ''Document Analysis'',
                link = None, date = None\<rparr>] \<and>
            length (citations ai) =
              length (adapterDerived e (categorizeQuery (the (req_query req)))
                        (the (req_query req))) + 1)"
proof (intro conjI impI allI)
  assume "sessionOpen s st1 \<and> s \<noteq> []"
  then have g: "gatherResults e c q s (req_documentContext req) st1 =
           (Inr (gatheredItems e c q (req_documentContext req)),
            effect (Some s) (gatheredEvents e c q (req_documentContext req)) (adaptersFor c) st1)"
    by (simp add: gatherResults_effect)
  have f: "filterBoolean (flat (gatheredItems e c q (req_documentContext req))) =
      adapterDerived e c q @ [documentEntry (req_documentContext req)]"
    using assms by (simp add: gatheredItems_def adapterDerived_def flat_map_Arr)
  show "\<exists>rr st2. gatherResults e c q s (req_documentContext req) st1 = (Inr rr, st2) \<and>
               filterBoolean (flat rr) =
                 adapterDerived e c q @ [documentEntry (req_documentContext req)] \<and>
               source (last (filterBoolean (flat rr))) = Some ''Document Analysis''"
    using g f by (simp add: documentEntry_def)
next
  fix ai
  assume r: "fst (handleResearchQuery e req st) = Response 200 (AiBody ai)"
  from handleResearchQuery_citations [OF r] assms
  show c: "citations ai =
              map citationOf
                (adapterDerived e (categorizeQuery (the (req_query req))) (the (req_query req))) @
              [\<lparr>title = None, authors = None, source = Some ''Document Analysis'',
                link = None, date = None\<rparr>]"
    by (simp add: synthesisInput_eq citationOf_def documentEntry_def)
  show "length (citations ai) =
              length (adapterDerived e (categorizeQuery (the (req_query req)))
                        (the (req_query req))) + 1"
    unfolding c by simp
qed

lemma adapterDerived_offline_general:
  "adapterDerived offlineEnv ''general'' q =
     [leedRecord offlineEnv, leasingRecord offlineEnv q, marketRecord offlineEnv q,
      fallbackRecord offlineEnv q]"
  by (simp add: adapterDerived_def adaptersFor_def adapterRecords_def sustainabilityRecords_def
      arXivResultsOf_def cannedRecord_def offlineEnv_def)

theorem document_entry_cited_witness:
  "\<exists>ai. fst (handleResearchQuery offlineEnv
            \<lparr>req_query = Some ''hello'', req_sessionId = Some ''s1'',
             req_documentContext = Some (DocText ''Lease abstract'')\<rparr> startState) =
           Response 200 (AiBody ai) \<and>
         citations ai =
           map citationOf (adapterDerived offlineEnv ''general'' ''hello'') @
           [\<lparr>title = None, authors = None, source = Some ''Document Analysis'',
             link = None, date = None\<rparr>]"
proof -
  let ?req = "\<lparr>req_query = Some ''hello'', req_sessionId = Some ''s1'',
             req_documentContext = Some (DocText ''Lease abstract'')\<rparr>"
  have h: "truthyDoc (req_documentContext ?req)"
    by simp
  obtain ai where r: "fst (handleResearchQuery offlineEnv ?req startState) = Response 200 (AiBody ai)"
    by (simp add: offline_request)
  from document_entry_cited [OF h, of "''s1''" startState offlineEnv "''general''" "''hello''" startState] r
  have "citations ai =
           map citationOf (adapterDerived offlineEnv ''general'' ''hello'') @
           [\<lparr>title = None, authors = None, source = Some ''Document Analysis'',
             link = None, date = None\<rparr>]"
    by (simp add: categorizeQuery_hello)
  with r show ?thesis by blast
qed

text \<open>
  So the citation list does not leave the document entry out: on the example machine, a
  general query with a document context has four adapter records and five citations, the
  fifth made from the document entry.
\<close>

theorem document_analysis_in_citations:
  "case fst (handleResearchQuery offlineEnv
            \<lparr>req_query = Some ''hello'', req_sessionId = Some ''s1'',
             req_documentContext = Some (DocText ''Lease abstract'')\<rparr> startState) of
     Response code (AiBody ai) \<Rightarrow>
       code = 200 \<and>
       length (adapterDerived offlineEnv (categorizeQuery ''hello'') ''hello'') = 4 \<and>
       length (citations ai) = 5 \<and>
       citations ai ! 4 = citationOf (documentEntry (Some (DocText ''Lease abstract''))) \<and>
       source (citations ai ! 4) = Some ''Document Analysis''
   | _ \<Rightarrow> False"
  by (simp add: offline_request synthesisInput_eq categorizeQuery_hello
      adapterDerived_offline_general citationOf_def documentEntry_def)


subsection \<open>The canned adapters and the size of a general request\<close>











section \<open>Properties of the news-feed search\<close>




















section \<open>Properties of the trend label\<close>






text \<open>
  The label reaches the summary of the indicator's record; with no observation at all the
  round throws before a record is made.
\<close>

lemma indicatorResult_empty:
  "indicatorResult fe k sid t [] =
     Inl (TypeError ''Cannot read properties of undefined (reading value)'')"
  by (simp add: indicatorResult_def)

lemma indicatorResult_summary:
  "indicatorResult fe k sid t (o0 # os) = Inr r \<Longrightarrow>
   summary r =
     Some (t @ '' has '' @ calculateTrend (parseFloat fe) (o0 # os) @ '' to '' @ obs_value o0 @
           '' as of '' @ fred_toLocaleDateString fe (obs_date o0) @ ''. '' @
           ''This indicator is relevant to commercial real estate '' @ k @
           '' trends and provides insight into current market conditions.'')"
  by (auto simp: indicatorResult_def mkResult_def Let_def)


section \<open>Further properties\<close>

text \<open>The tie rule of the stand-alone categorizer at an example.\<close>

theorem categorize_ties_general_witness:
  "countKeywordMatches (toLowerCase ''green market'') qc_sustainabilityKeywords = 1 \<and>
   countKeywordMatches (toLowerCase ''green market'') qc_marketTrendsKeywords = 1 \<and>
   categorize ''green market'' = ''general''"
proof -
  have s: "countKeywordMatches (toLowerCase ''green market'') qc_sustainabilityKeywords = 1"
    by (simp add: countKeywordMatches_def lower_defs kw_defs)
  have l: "countKeywordMatches (toLowerCase ''green market'') qc_leasingKeywords = 0"
    by (simp add: countKeywordMatches_def lower_defs kw_defs)
  have m: "countKeywordMatches (toLowerCase ''green market'') qc_marketTrendsKeywords = 1"
    by (simp add: countKeywordMatches_def lower_defs kw_defs)
  have h: "let ql = toLowerCase ''green market'';
               s = countKeywordMatches ql qc_sustainabilityKeywords;
               l = countKeywordMatches ql qc_leasingKeywords;
               m = countKeywordMatches ql qc_marketTrendsKeywords
           in (s = l \<and> m \<le> s) \<or> (s = m \<and> l \<le> s) \<or> (l = m \<and> s \<le> l)"
    unfolding Let_def s l m by simp
  from categorize_ties_general [OF h] s m show ?thesis by simp
qed

text \<open>
  The two example queries of the end-to-end scenarios: in both the top score is tied with
  the market score, and \<open>categorizeQuery\<close> returns \<open>market\<close>.
\<close>

theorem leed_trends_query_market:
  "forEachMatch (toLowerCase ''What are current LEED certification trends?'') sustainabilityKeywords = 1 \<and>
   forEachMatch (toLowerCase ''What are current LEED certification trends?'') leasingKeywords = 1 \<and>
   forEachMatch (toLowerCase ''What are current LEED certification trends?'') marketKeywords = 1 \<and>
   categorizeQuery ''What are current LEED certification trends?'' = ''market'' \<and>
   adaptersFor (categorizeQuery ''What are current LEED certification trends?'') = [Market, Fallback]"
  by code_simp

theorem vacancy_forecast_query_market:
  "forEachMatch (toLowerCase ''office vacancy rate forecast'') sustainabilityKeywords = 0 \<and>
   forEachMatch (toLowerCase ''office vacancy rate forecast'') leasingKeywords = 1 \<and>
   forEachMatch (toLowerCase ''office vacancy rate forecast'') marketKeywords = 1 \<and>
   categorizeQuery ''office vacancy rate forecast'' = ''market'' \<and>
   adaptersFor (categorizeQuery ''office vacancy rate forecast'') = [Market, Fallback]"
  by code_simp

text \<open>
  When the model provider fails (a missing key, or a call that throws), the handler
  answers 500 after all adapters have run, and the flag of the session stays \<open>false\<close>:
  the completion step is not reached.
\<close>

theorem provider_failure_incomplete:
  assumes "truthy (req_query req)" "truthy (req_sessionId req)"
    and "researchStatus st \<noteq> None" "researchComplete st \<noteq> None"
    and "providerOutcome e
           (prepareMessages e (the (req_query req))
              (synthesisInput e (the (req_query req)) (req_documentContext req))
              (req_documentContext req)) = Inl err"
  shows "fst (handleResearchQuery e req st) =
           Response 500 (MessageErrorBody ''Error processing query''
             (''Failed to process research with AI: '' @ message err)) \<and>
         completeFlag (the (req_sessionId req)) (snd (handleResearchQuery e req st)) = Some False \<and>
         invoked (snd (handleResearchQuery e req st)) =
           invoked st @ adaptersFor (categorizeQuery (the (req_query req)))"
proof -
  from assms(3,4) obtain m mc where m: "researchStatus st = Some m"
    and mc: "researchComplete st = Some mc"
    by auto
  from handleResearchQuery_valid [OF assms(1,2) m mc, of e] assms(5)
  have eq: "handleResearchQuery e req st =
      (Response 500
             (MessageErrorBody ''Error processing query''
                (''Failed to process research with AI: '' @ message err)),
           st\<lparr>researchStatus := Some (m(the (req_sessionId req) \<mapsto>
                  sessionEvents e (the (req_query req)) (req_documentContext req))),
              researchComplete := Some (mc(the (req_sessionId req) \<mapsto> False)),
              invoked := invoked st @ adaptersFor (categorizeQuery (the (req_query req)))\<rparr>)"
    by simp
  show ?thesis
    unfolding eq using assms(2)
    by (simp add: completeFlag_def getResearchStatus_def truthy_the)
qed

theorem provider_failure_incomplete_witness:
  "fst (handleResearchQuery (offlineEnv\<lparr>AI_PROVIDER := None\<rparr>)
          \<lparr>req_query = Some ''office rents'', req_sessionId = Some ''s1'',
           req_documentContext = None\<rparr> startState) =
     Response 500 (MessageErrorBody ''Error processing query''
       ''Failed to process research with AI: AI provider API key not configured for openai'') \<and>
   completeFlag ''s1'' (snd (handleResearchQuery (offlineEnv\<lparr>AI_PROVIDER := None\<rparr>)
          \<lparr>req_query = Some ''office rents'', req_sessionId = Some ''s1'',
           req_documentContext = None\<rparr> startState)) = Some False"
proof -
  let ?E = "offlineEnv\<lparr>AI_PROVIDER := None\<rparr>"
  let ?req = "\<lparr>req_query = Some ''office rents'', req_sessionId = Some ''s1'',
           req_documentContext = None\<rparr>"
  have p: "\<And>msgs. providerOutcome ?E msgs =
      Inl (Error ''AI provider API key not configured for openai'')"
    by (simp add: providerOutcome_def chosenProvider_def getApiKey_def lower_defs Let_def
        offlineEnv_def)
  have "truthy (req_query ?req)" "truthy (req_sessionId ?req)"
    "researchStatus startState \<noteq> None" "researchComplete startState \<noteq> None"
    by (simp_all add: startState_def)
  from provider_failure_incomplete [OF this p]
  show ?thesis by simp
qed

end
